theory Spec2Isabelle
  imports Complex_Main
begin

section \<open>Simulation data\<close>

text \<open>
  Every line of the input feed is a Python dictionary literal; \<^verbatim>\<open>visualize.py\<close> reads
  the keys \<^verbatim>\<open>'time'\<close> and \<^verbatim>\<open>'roads'\<close> of a frame, \<^verbatim>\<open>'name'\<close>, \<^verbatim>\<open>'length'\<close>,
  \<^verbatim>\<open>'lights'\<close> and \<^verbatim>\<open>'cars'\<close> of a road, \<^verbatim>\<open>'x'\<close>, \<^verbatim>\<open>'green'\<close> and the optional
  \<^verbatim>\<open>'xs'\<close>, \<^verbatim>\<open>'xs0'\<close> of a light, and \<^verbatim>\<open>'x'\<close> of a car. The records below are these
  dictionaries with every required key present; the two optional keys are options.
  Python numbers (\<^verbatim>\<open>int\<close> and \<^verbatim>\<open>float\<close> alike) are real numbers here: float
  arithmetic is taken to be exact.
\<close>

record car =
  car_x :: real

record light =
  light_x :: real
  light_green :: bool
  light_xs :: "real option"
  light_xs0 :: "real option"

record road =
  road_name :: string
  road_length :: real
  road_lights :: "light list"
  road_cars :: "car list"

record situation =
  sit_time :: real
  sit_roads :: "road list"

datatype py_error =
  IndexError | ValueError | ZeroDivisionError | AssertionError | ArgumentTypeError

text \<open>Python's \<^verbatim>\<open>int(x)\<close> on a number: truncation towards zero.\<close>

definition py_int :: "real \<Rightarrow> int" where
  "py_int x = (if 0 \<le> x then \<lfloor>x\<rfloor> else \<lceil>x\<rceil>)"

text \<open>
  Python's \<^verbatim>\<open>xs[i]\<close> on a list: a negative index counts from the end, and an index
  outside the list raises \<^verbatim>\<open>IndexError\<close>.
\<close>

definition list_getitem :: "'a list \<Rightarrow> int \<Rightarrow> py_error + 'a" where
  "list_getitem xs i =
     (if 0 \<le> i \<and> i < int (length xs) then Inr (xs ! nat i)
      else if i < 0 \<and> 0 \<le> int (length xs) + i then Inr (xs ! nat (int (length xs) + i))
      else Inl IndexError)"

text \<open>Python's \<^verbatim>\<open>max\<close> of an iterable: \<^verbatim>\<open>ValueError\<close> when it is empty.\<close>

fun py_max :: "int list \<Rightarrow> py_error + int" where
  "py_max [] = Inl ValueError"
| "py_max (x # xs) = Inr (fold max xs x)"


section \<open>The visualizer object\<close>

type_synonym color = "int \<times> int \<times> int"

record colors =
  color_background :: color
  color_text :: color
  color_road :: color
  color_car :: color
  color_traffic_light_green :: color
  color_traffic_light_red :: color
  color_generator :: color
  color_deceleration_range :: color
  color_stopping_range_full :: color
  color_stopping_range_half :: color

definition Colors_default :: colors where
  "Colors_default =
     \<lparr>color_background = (255, 255, 255),
      color_text = (0, 0, 0),
      color_road = (200, 200, 200),
      color_car = (40, 40, 40),
      color_traffic_light_green = (0, 255, 0),
      color_traffic_light_red = (255, 0, 0),
      color_generator = (255, 100, 255),
      color_deceleration_range = (155, 175, 213),
      color_stopping_range_full = (219, 125, 125),
      color_stopping_range_half = (213, 173, 99)\<rparr>"

record visualizer =
  fps :: int
  window_width :: int
  window_height :: int
  window_title :: string
  canvas_margin :: int
  road_height :: int
  car_height :: int
  car_width :: int
  light_offset :: int
  light_radius :: int
  light_stop_line_thickness :: int
  road_name_offset :: int
  colors :: colors
  font_family :: string
  font_size :: int
  pause_icon_width :: int
  pause_icon_height :: int
  playback_rate :: int
  timeline :: "situation list"
  time_idx :: int
  paused :: bool

text \<open>\<^verbatim>\<open>Visualizer.__init__\<close>, with the class constants written out.\<close>

definition Visualizer_init :: "int \<Rightarrow> int \<Rightarrow> visualizer" where
  "Visualizer_init initial_window_width initial_window_height =
     \<lparr>fps = 60,
      window_width = initial_window_width,
      window_height = initial_window_height,
      window_title = ''Traffic Simulation Visualizer'',
      canvas_margin = 16,
      road_height = 20,
      car_height = 10,
      car_width = 4,
      light_offset = 4,
      light_radius = 5,
      light_stop_line_thickness = 1,
      road_name_offset = 3,
      colors = Colors_default,
      font_family = ''DejaVu Sans'',
      font_size = 16,
      pause_icon_width = 15,
      pause_icon_height = 20,
      playback_rate = 1,
      timeline = [],
      time_idx = 0,
      paused = False\<rparr>"

text \<open>
  \<^verbatim>\<open>push_simulation_frame_data\<close> appends the parsed frame; the parsing itself
  (\<^verbatim>\<open>ast.literal_eval\<close>) is outside the model, so the argument is the parsed record.
\<close>

definition push_simulation_frame_data :: "visualizer \<Rightarrow> situation \<Rightarrow> visualizer" where
  "push_simulation_frame_data v parsed_data = v\<lparr>timeline := timeline v @ [parsed_data]\<rparr>"

definition set_playback_rate :: "visualizer \<Rightarrow> int \<Rightarrow> py_error + visualizer" where
  "set_playback_rate v rate =
     (if rate \<ge> 1 then Inr (v\<lparr>playback_rate := rate\<rparr>) else Inl AssertionError)"

definition set_colors :: "visualizer \<Rightarrow> colors \<Rightarrow> visualizer" where
  "set_colors v cs = v\<lparr>colors := cs\<rparr>"


section \<open>Playback controller\<close>

definition toggle_pause :: "visualizer \<Rightarrow> visualizer" where
  "toggle_pause v = v\<lparr>paused := \<not> paused v\<rparr>"

definition frames_back :: "visualizer \<Rightarrow> int \<Rightarrow> visualizer" where
  "frames_back v n = v\<lparr>time_idx := max 0 (time_idx v - n)\<rparr>"

definition frames_forward :: "visualizer \<Rightarrow> int \<Rightarrow> visualizer" where
  "frames_forward v n =
     (let v1 = v\<lparr>time_idx := time_idx v + n\<rparr> in
      if time_idx v1 \<ge> int (length (timeline v1))
      then (v1\<lparr>paused := True\<rparr>)\<lparr>time_idx := int (length (timeline v1)) - 1\<rparr>
      else v1)"

text \<open>
  The keys the program looks at. \<^verbatim>\<open>pygame.key.get_pressed()\<close> is a sequence of
  booleans indexed by key, here a function; it is never empty, so the test
  \<^verbatim>\<open>if keys_pressed:\<close> of the main loop always succeeds.
\<close>

datatype key = K_SPACE | K_r | K_LEFT | K_RIGHT | K_LSHIFT | K_RSHIFT | K_other nat

definition handle_key_down :: "visualizer \<Rightarrow> key \<Rightarrow> visualizer" where
  "handle_key_down v k =
     (let v1 = (if k = K_SPACE then toggle_pause v else v) in
      if k = K_r then v1\<lparr>time_idx := 0\<rparr> else v1)"

definition handle_keys_pressed :: "visualizer \<Rightarrow> (key \<Rightarrow> bool) \<Rightarrow> visualizer" where
  "handle_keys_pressed v keys_pressed =
     (let shift_pressed = (keys_pressed K_LSHIFT \<or> keys_pressed K_RSHIFT);
          v1 = (if keys_pressed K_LEFT \<and> paused v
                then frames_back v (if shift_pressed then playback_rate v else 1)
                else v)
      in if keys_pressed K_RIGHT \<and> paused v1
         then frames_forward v1 (if shift_pressed then playback_rate v1 else 1)
         else v1)"



section \<open>Scene renderer\<close>

text \<open>
  The renderer draws on a pygame window. Its effect is the sequence of drawing calls, in
  the order the code makes them: \<^verbatim>\<open>window.fill\<close>, \<^verbatim>\<open>font.render\<close> followed by
  \<^verbatim>\<open>window.blit\<close>, and \<^verbatim>\<open>pygame.draw.rect\<close>, \<^verbatim>\<open>line\<close> and \<^verbatim>\<open>circle\<close>. A
  rectangle is \<^verbatim>\<open>pygame.Rect(left, top, width, height)\<close>.
\<close>

datatype text_content = TimeLabel real | RoadName string

datatype draw_cmd =
    Fill color
  | Blit string int bool text_content color "int \<times> int"
  | DrawRect color int int int int
  | DrawLine color "int \<times> int" "int \<times> int" int
  | DrawCircle color "int \<times> int" int

definition get_canvas_margin :: "visualizer \<Rightarrow> int" where
  "get_canvas_margin v = canvas_margin v"

definition get_canvas_origin_left :: "visualizer \<Rightarrow> int" where
  "get_canvas_origin_left v = get_canvas_margin v"

definition get_canvas_origin_top :: "visualizer \<Rightarrow> int" where
  "get_canvas_origin_top v = get_canvas_margin v"

definition get_canvas_origin :: "visualizer \<Rightarrow> int \<times> int" where
  "get_canvas_origin v = (get_canvas_origin_left v, get_canvas_origin_top v)"

definition get_canvas_width :: "visualizer \<Rightarrow> int" where
  "get_canvas_width v = window_width v - 2 * get_canvas_margin v"

definition get_canvas_height :: "visualizer \<Rightarrow> int" where
  "get_canvas_height v = window_height v - 2 * get_canvas_margin v"

definition get_road_height :: "visualizer \<Rightarrow> int" where
  "get_road_height v = road_height v"

definition get_car_height :: "visualizer \<Rightarrow> int" where
  "get_car_height v = car_height v"

definition get_car_width :: "visualizer \<Rightarrow> int" where
  "get_car_width v = car_width v"

definition get_light_offset :: "visualizer \<Rightarrow> int" where
  "get_light_offset v = light_offset v"

definition get_light_radius :: "visualizer \<Rightarrow> int" where
  "get_light_radius v = light_radius v"

definition get_light_stop_line_thickness :: "visualizer \<Rightarrow> int" where
  "get_light_stop_line_thickness v = light_stop_line_thickness v"

definition get_road_name_offset :: "visualizer \<Rightarrow> int" where
  "get_road_name_offset v = road_name_offset v"

definition get_font_size :: "visualizer \<Rightarrow> int" where
  "get_font_size v = font_size v"

definition draw_background :: "visualizer \<Rightarrow> draw_cmd list" where
  "draw_background v = [Fill (color_background (colors v))]"

definition draw_pause_icon :: "visualizer \<Rightarrow> draw_cmd list" where
  "draw_pause_icon v =
     (let width = pause_icon_width v;
          height = pause_icon_height v;
          origin_left = get_canvas_origin_left v + get_canvas_width v - width;
          origin_top = get_canvas_origin_top v
      in [DrawRect (color_text (colors v)) origin_left origin_top width height,
          DrawRect (color_background (colors v))
            (origin_left + width div 3) origin_top (width - (2 * width) div 3) height])"

definition draw_time :: "visualizer \<Rightarrow> real \<Rightarrow> draw_cmd list" where
  "draw_time v t =
     [Blit (font_family v) (get_font_size v) False (TimeLabel t) (color_text (colors v))
        (get_canvas_origin v)]"

definition draw_road_name :: "visualizer \<Rightarrow> string \<Rightarrow> int \<Rightarrow> int \<Rightarrow> draw_cmd list" where
  "draw_road_name v name road_x road_y =
     (let origin_y = road_y + get_road_height v div 2 + get_road_name_offset v
      in [Blit (font_family v) (py_int ((8 / 10) * of_int (get_font_size v))) True
            (RoadName name) (color_text (colors v)) (road_x, origin_y)])"

definition draw_generator :: "visualizer \<Rightarrow> int \<Rightarrow> int \<Rightarrow> real \<Rightarrow> draw_cmd list" where
  "draw_generator v road_x road_y horizontal_scale =
     (let width = max 1 (py_int (of_int (get_car_width v) * horizontal_scale));
          origin_x = road_x - width;
          origin_y = road_y - get_road_height v div 2
      in [DrawRect (color_generator (colors v)) origin_x origin_y width (get_road_height v)])"

definition draw_road :: "visualizer \<Rightarrow> int \<Rightarrow> int \<Rightarrow> int \<Rightarrow> draw_cmd list" where
  "draw_road v origin_x center_y width =
     (let origin_y = center_y - get_road_height v div 2
      in [DrawRect (color_road (colors v)) origin_x origin_y width (get_road_height v)])"

definition draw_car :: "visualizer \<Rightarrow> int \<Rightarrow> int \<Rightarrow> int \<Rightarrow> draw_cmd list" where
  "draw_car v origin_x center_y width =
     (let origin_y = center_y - get_car_height v div 2
      in [DrawRect (color_car (colors v)) origin_x origin_y width (get_car_height v)])"

definition draw_traffic_light ::
    "visualizer \<Rightarrow> int \<Rightarrow> int \<Rightarrow> int \<Rightarrow> bool \<Rightarrow> draw_cmd list" where
  "draw_traffic_light v center_x road_center_y stop_line_thickness is_green =
     (let color = (if is_green then color_traffic_light_green (colors v)
                   else color_traffic_light_red (colors v));
          line_top_y = road_center_y - get_road_height v div 2;
          line_bottom_y = road_center_y + get_road_height v div 2 + get_light_offset v;
          radius = get_light_radius v;
          center_y = road_center_y + get_road_height v div 2 + get_light_offset v + radius
      in [DrawLine color (center_x, line_top_y) (center_x, line_bottom_y) stop_line_thickness,
          DrawCircle color (center_x, center_y) radius])"

text \<open>
  \<^verbatim>\<open>//\<close> on Python integers rounds towards minus infinity, as \<open>div\<close> on \<^typ>\<open>int\<close>
  does.
\<close>

definition draw_indicators :: "visualizer \<Rightarrow> int \<Rightarrow> int \<Rightarrow> int \<Rightarrow> int \<Rightarrow> draw_cmd list" where
  "draw_indicators v x road_y deceleration_distance stopping_distance =
     (let origin_y = road_y - get_road_height v div 2
      in [DrawRect (color_deceleration_range (colors v))
            (x - deceleration_distance) origin_y deceleration_distance (get_road_height v),
          DrawRect (color_stopping_range_full (colors v))
            (x - stopping_distance) origin_y stopping_distance (get_road_height v),
          DrawRect (color_stopping_range_half (colors v))
            (x - stopping_distance div 2) origin_y (stopping_distance div 2)
            (get_road_height v)])"

text \<open>
  The body of the loop of \<^verbatim>\<open>_draw_traffic_lights\<close>, for one light. The test
  \<^verbatim>\<open>'xs' in light and 'xs0' in light and not is_green\<close> is the case distinction on the
  two optional fields.
\<close>

definition draw_traffic_lights_body :: "visualizer \<Rightarrow> int \<Rightarrow> real \<Rightarrow> light \<Rightarrow> draw_cmd list" where
  "draw_traffic_lights_body v road_y horizontal_scale l =
     (let light_x_offset = of_int (py_int (light_x l)) * horizontal_scale;
          x = get_canvas_origin_left v + py_int light_x_offset;
          stop_line_thickness =
            max 1 (py_int (of_int (get_light_stop_line_thickness v) * horizontal_scale));
          is_green = light_green l
      in (case (light_xs l, light_xs0 l) of
            (Some xs, Some xs0) \<Rightarrow>
              if \<not> is_green then
                (let deceleration_distance = of_int (py_int xs) * horizontal_scale;
                     stopping_distance = of_int (py_int xs0) * horizontal_scale
                 in draw_indicators v x road_y
                      (py_int deceleration_distance) (py_int stopping_distance))
              else []
          | _ \<Rightarrow> [])
         @ draw_traffic_light v x road_y stop_line_thickness is_green)"

definition draw_traffic_lights :: "visualizer \<Rightarrow> light list \<Rightarrow> int \<Rightarrow> real \<Rightarrow> draw_cmd list" where
  "draw_traffic_lights v ls road_y horizontal_scale =
     concat (map (draw_traffic_lights_body v road_y horizontal_scale) ls)"

text \<open>
  The body of the loop of \<^verbatim>\<open>_draw_cars\<close>. The source's second \<^verbatim>\<open>int(car_x_offset)\<close>
  is applied to an integer and is the identity.
\<close>

definition draw_cars_body :: "visualizer \<Rightarrow> int \<Rightarrow> real \<Rightarrow> car \<Rightarrow> draw_cmd list" where
  "draw_cars_body v road_y horizontal_scale c =
     (let width = max 1 (py_int (of_int (get_car_width v) * horizontal_scale));
          car_x_offset = py_int (car_x c * horizontal_scale) - width;
          x = get_canvas_origin_left v + car_x_offset
      in draw_car v x road_y width)"

definition draw_cars :: "visualizer \<Rightarrow> car list \<Rightarrow> int \<Rightarrow> real \<Rightarrow> draw_cmd list" where
  "draw_cars v cs road_y horizontal_scale =
     concat (map (draw_cars_body v road_y horizontal_scale) cs)"

definition draw_full_road :: "visualizer \<Rightarrow> road \<Rightarrow> int \<Rightarrow> real \<Rightarrow> draw_cmd list" where
  "draw_full_road v r road_y horizontal_scale =
     (let road_x = get_canvas_origin_left v;
          road_width = py_int (of_int (py_int (road_length r)) * horizontal_scale)
      in draw_road_name v (road_name r) road_x road_y
         @ draw_road v road_x road_y road_width
         @ draw_traffic_lights v (road_lights r) road_y horizontal_scale
         @ draw_cars v (road_cars r) road_y horizontal_scale
         @ draw_generator v road_x road_y horizontal_scale)"

text \<open>
  The scale computation of \<^verbatim>\<open>_render_situation\<close>:
  \<^verbatim>\<open>max_road_length = max(int(road['length']) for road in roads)\<close> raises
  \<^verbatim>\<open>ValueError\<close> on an empty road list, and the division
  \<^verbatim>\<open>self._get_canvas_width() / max_road_length\<close> raises \<^verbatim>\<open>ZeroDivisionError\<close> when
  that maximum is zero.
\<close>

definition horizontal_scale_of :: "visualizer \<Rightarrow> road list \<Rightarrow> py_error + real" where
  "horizontal_scale_of v rs =
     (case py_max (map (\<lambda>r. py_int (road_length r)) rs) of
        Inl e \<Rightarrow> Inl e
      | Inr max_road_length \<Rightarrow>
          if max_road_length = 0 then Inl ZeroDivisionError
          else Inr (of_int (get_canvas_width v) / of_int max_road_length))"

definition road_y_of :: "visualizer \<Rightarrow> nat \<Rightarrow> nat \<Rightarrow> int" where
  "road_y_of v i k =
     (let road_y_offset = of_int ((int i + 1) * get_canvas_height v) / of_int (int k + 1)
      in get_canvas_origin_top v + py_int road_y_offset)"

definition render_situation :: "visualizer \<Rightarrow> situation \<Rightarrow> py_error + draw_cmd list" where
  "render_situation v s =
     (let header = draw_background v @ draw_time v (sit_time s)
                   @ (if paused v then draw_pause_icon v else []);
          rs = sit_roads s
      in case horizontal_scale_of v rs of
           Inl e \<Rightarrow> Inl e
         | Inr horizontal_scale \<Rightarrow>
             Inr (header @ concat (map (\<lambda>(i, r).
                    draw_full_road v r (road_y_of v i (length rs)) horizontal_scale)
                  (enumerate 0 rs))))"


section \<open>Render loop\<close>

text \<open>
  One iteration of the \<^verbatim>\<open>while True\<close> loop of \<^verbatim>\<open>main_loop\<close>. Its inputs are what
  pygame hands over in that iteration: the pending events and the held keys. It ends
  the program on a quit event, raises, or leaves a new state and a rendered frame.
\<close>

datatype event = QUIT | VIDEORESIZE int int | KEYDOWN key | OTHER_EVENT

fun handle_events :: "visualizer \<Rightarrow> event list \<Rightarrow> visualizer option" where
  "handle_events v [] = Some v"
| "handle_events v (QUIT # es) = None"
| "handle_events v (VIDEORESIZE w h # es) =
     handle_events (v\<lparr>window_width := w, window_height := h\<rparr>) es"
| "handle_events v (KEYDOWN k # es) = handle_events (handle_key_down v k) es"
| "handle_events v (OTHER_EVENT # es) = handle_events v es"

datatype tick_result = Quit | Raised py_error | Frame visualizer "draw_cmd list"

definition tick :: "visualizer \<Rightarrow> event list \<Rightarrow> (key \<Rightarrow> bool) \<Rightarrow> tick_result" where
  "tick v events keys_pressed =
     (case handle_events v events of
        None \<Rightarrow> Quit
      | Some v1 \<Rightarrow>
          (let v2 = handle_keys_pressed v1 keys_pressed in
           case list_getitem (timeline v2) (time_idx v2) of
             Inl e \<Rightarrow> Raised e
           | Inr s \<Rightarrow>
               (let v3 = (if \<not> paused v2 then frames_forward v2 (playback_rate v2) else v2) in
                case render_situation v3 s of
                  Inl e \<Rightarrow> Raised e
                | Inr cmds \<Rightarrow> Frame v3 cmds)))"

text \<open>
  The loop runs for as long as pygame supplies input, so the run is a function of the
  list of per-iteration inputs. The result holds the frames presented so far; when the
  inputs are used up without a quit event or an exception the loop is still running.
\<close>

datatype loop_result =
    Exited "draw_cmd list list"
  | Failed py_error "draw_cmd list list"
  | Running visualizer "draw_cmd list list"

fun run_loop ::
    "visualizer \<Rightarrow> (event list \<times> (key \<Rightarrow> bool)) list \<Rightarrow> draw_cmd list list \<Rightarrow> loop_result" where
  "run_loop v [] shown = Running v shown"
| "run_loop v ((events, keys_pressed) # inputs) shown =
     (case tick v events keys_pressed of
        Quit \<Rightarrow> Exited shown
      | Raised e \<Rightarrow> Failed e shown
      | Frame v' cmds \<Rightarrow> run_loop v' inputs (shown @ [cmds]))"

definition main_loop :: "visualizer \<Rightarrow> (event list \<times> (key \<Rightarrow> bool)) list \<Rightarrow> loop_result" where
  "main_loop v inputs = run_loop (v\<lparr>time_idx := 0\<rparr>) inputs []"

text \<open>
  The argument type \<^verbatim>\<open>speed\<close> of the command line, on the integer its string
  denotes: a value below 1 is rejected.
\<close>

definition speed :: "int \<Rightarrow> py_error + int" where
  "speed s = (if s < 1 then Inl ArgumentTypeError else Inr s)"

text \<open>
  \<^verbatim>\<open>main\<close>: \<open>rate\<close> is the integer given to the speed option (4 when the option is
  absent), \<open>dark\<close> the dark-mode flag, \<open>frames\<close> the parsed lines of standard input.
\<close>

definition Colors_dark :: colors where
  "Colors_dark =
     Colors_default
       \<lparr>color_background := (0, 0, 0),
        color_text := (255, 255, 255),
        color_road := (55, 55, 55),
        color_car := (215, 215, 215),
        color_generator := (140, 0, 140),
        color_deceleration_range := (55, 75, 113),
        color_stopping_range_full := (119, 25, 25),
        color_stopping_range_half := (113, 73, 0)\<rparr>"

definition main ::
    "int \<Rightarrow> bool \<Rightarrow> situation list \<Rightarrow> (event list \<times> (key \<Rightarrow> bool)) list \<Rightarrow> loop_result" where
  "main rate dark frames inputs =
     (case speed rate of
        Inl e \<Rightarrow> Failed e []
      | Inr args_speed \<Rightarrow>
          (case set_playback_rate (Visualizer_init 800 200) args_speed of
             Inl e \<Rightarrow> Failed e []
           | Inr v \<Rightarrow>
               (let v1 = (if dark then set_colors v Colors_dark else v);
                    v2 = fold (\<lambda>line w. push_simulation_frame_data w line) frames v1
                in main_loop v2 inputs)))"


section \<open>Example inputs\<close>

text \<open>
  The frames of a two-frame session: one road \<^verbatim>\<open>A\<close> of length 100 without lights and
  one car, at position 10 at time 0 and at position 20 at time 1. The visualizer is the
  object \<^verbatim>\<open>main\<close> has built when it calls \<^verbatim>\<open>main_loop\<close>, with playback rate 1
  and the initial window of 800 by 200 pixels.
\<close>

definition no_keys :: "key \<Rightarrow> bool" where
  "no_keys k = False"

definition example_frame :: "real \<Rightarrow> real \<Rightarrow> situation" where
  "example_frame t x =
     \<lparr>sit_time = t,
      sit_roads = [\<lparr>road_name = ''A'', road_length = 100, road_lights = [],
                    road_cars = [\<lparr>car_x = x\<rparr>]\<rparr>]\<rparr>"

definition example_visualizer :: visualizer where
  "example_visualizer =
     push_simulation_frame_data
       (push_simulation_frame_data (Visualizer_init 800 200) (example_frame 0 10))
       (example_frame 1 20)"



definition example_light :: light where
  "example_light = \<lparr>light_x = 50, light_green = False, light_xs = Some 9, light_xs0 = Some 5\<rparr>"



section \<open>Reachable controller states\<close>

text \<open>
  The index is valid when it is a position of the timeline. The states of the playback
  controller that a session can reach from the entry of \<^verbatim>\<open>main_loop\<close> (which resets
  the index to 0): the automatic advance while running, a forward or backward step by
  at least one frame, the pause toggle, a key-down event (space toggles the pause,
  \<^verbatim>\<open>r\<close> restarts), the held-key handler (the user's steps) and a whole loop
  iteration that presents a frame.
\<close>

definition index_valid :: "visualizer \<Rightarrow> bool" where
  "index_valid v \<longleftrightarrow> 0 \<le> time_idx v \<and> time_idx v < int (length (timeline v))"

inductive reachable :: "visualizer \<Rightarrow> visualizer \<Rightarrow> bool" for v0 :: visualizer where
  start: "reachable v0 (v0\<lparr>time_idx := 0\<rparr>)"
| auto_advance: "reachable v0 v \<Longrightarrow> \<not> paused v \<Longrightarrow>
    reachable v0 (frames_forward v (playback_rate v))"
| step_forward: "reachable v0 v \<Longrightarrow> 1 \<le> n \<Longrightarrow> reachable v0 (frames_forward v n)"
| step_back: "reachable v0 v \<Longrightarrow> 1 \<le> n \<Longrightarrow> reachable v0 (frames_back v n)"
| pause_toggle: "reachable v0 v \<Longrightarrow> reachable v0 (toggle_pause v)"
| key_down: "reachable v0 v \<Longrightarrow> reachable v0 (handle_key_down v k)"
| keys_held: "reachable v0 v \<Longrightarrow> reachable v0 (handle_keys_pressed v keys_pressed)"
| loop_tick: "reachable v0 v \<Longrightarrow> tick v events keys_pressed = Frame v' cmds \<Longrightarrow>
    reachable v0 v'"


section \<open>Unfolding rules\<close>

lemmas getter_defs =
  get_canvas_margin_def get_canvas_origin_left_def get_canvas_origin_top_def
  get_canvas_origin_def get_canvas_width_def get_canvas_height_def get_road_height_def
  get_car_height_def get_car_width_def get_light_offset_def get_light_radius_def
  get_light_stop_line_thickness_def get_road_name_offset_def get_font_size_def

lemmas draw_defs =
  draw_background_def draw_time_def draw_pause_icon_def draw_full_road_def road_y_of_def
  draw_road_name_def draw_road_def draw_traffic_lights_def draw_traffic_lights_body_def
  draw_traffic_light_def draw_indicators_def draw_cars_def draw_cars_body_def draw_car_def
  draw_generator_def horizontal_scale_of_def render_situation_def

lemmas example_defs =
  example_visualizer_def example_frame_def push_simulation_frame_data_def
  Visualizer_init_def Colors_default_def no_keys_def

section \<open>What the controller operations leave unchanged\<close>

lemma frames_forward_frame [simp]:
  "timeline (frames_forward v n) = timeline v"
  "playback_rate (frames_forward v n) = playback_rate v"
  by (simp_all add: frames_forward_def Let_def)

lemma frames_back_frame [simp]:
  "timeline (frames_back v n) = timeline v"
  "playback_rate (frames_back v n) = playback_rate v"
  by (simp_all add: frames_back_def)

lemma toggle_pause_frame [simp]:
  "timeline (toggle_pause v) = timeline v"
  "playback_rate (toggle_pause v) = playback_rate v"
  "time_idx (toggle_pause v) = time_idx v"
  by (simp_all add: toggle_pause_def)

lemma handle_key_down_frame [simp]:
  "timeline (handle_key_down v k) = timeline v"
  "playback_rate (handle_key_down v k) = playback_rate v"
  by (simp_all add: handle_key_down_def Let_def)

lemma handle_keys_pressed_frame [simp]:
  "timeline (handle_keys_pressed v ks) = timeline v"
  "playback_rate (handle_keys_pressed v ks) = playback_rate v"
  by (simp_all add: handle_keys_pressed_def Let_def)

lemma handle_events_frame:
  "handle_events v es = Some v' \<Longrightarrow> timeline v' = timeline v \<and> playback_rate v' = playback_rate v"
proof (induction v es rule: handle_events.induct)
  case (1 v)
  then show ?case by simp
next
  case (2 v es)
  then show ?case by simp
next
  case (3 v w h es)
  then show ?case by simp
next
  case (4 v k es)
  then show ?case by simp
next
  case (5 v es)
  then show ?case by simp
qed


section \<open>Every controller operation keeps the index valid\<close>

lemma frames_forward_index_valid:
  "index_valid v \<Longrightarrow> 0 \<le> n \<Longrightarrow> index_valid (frames_forward v n)"
  by (auto simp: index_valid_def frames_forward_def Let_def)

lemma frames_back_index_valid:
  "index_valid v \<Longrightarrow> 0 \<le> n \<Longrightarrow> index_valid (frames_back v n)"
  by (auto simp: index_valid_def frames_back_def)

lemma toggle_pause_index_valid:
  "index_valid v \<Longrightarrow> index_valid (toggle_pause v)"
  by (simp add: index_valid_def)

lemma handle_key_down_index_valid:
  "index_valid v \<Longrightarrow> index_valid (handle_key_down v k)"
  by (auto simp: index_valid_def handle_key_down_def toggle_pause_def Let_def)

lemma handle_keys_pressed_index_valid:
  assumes "index_valid v" and "1 \<le> playback_rate v"
  shows "index_valid (handle_keys_pressed v ks)"
proof -
  let ?n = "if ks K_LSHIFT \<or> ks K_RSHIFT then playback_rate v else 1"
  let ?v1 = "if ks K_LEFT \<and> paused v then frames_back v ?n else v"
  from assms have n: "0 \<le> ?n" by simp
  with assms(1) have v1: "index_valid ?v1"
    by (simp add: frames_back_index_valid)
  have rate: "playback_rate ?v1 = playback_rate v" by simp
  have "handle_keys_pressed v ks =
      (if ks K_RIGHT \<and> paused ?v1 then frames_forward ?v1 ?n else ?v1)"
    by (simp add: handle_keys_pressed_def Let_def)
  with v1 n show ?thesis
    by (simp add: frames_forward_index_valid)
qed

lemma handle_events_index_valid:
  "handle_events v es = Some v' \<Longrightarrow> index_valid v \<Longrightarrow> index_valid v'"
proof (induction v es arbitrary: v' rule: handle_events.induct)
  case (1 v)
  then show ?case by simp
next
  case (2 v es)
  then show ?case by simp
next
  case (3 v w h es)
  from "3.prems"(2) have "index_valid (v\<lparr>window_width := w, window_height := h\<rparr>)"
    by (simp add: index_valid_def)
  with "3.IH" "3.prems"(1) show ?case by simp
next
  case (4 v k es)
  from "4.prems"(2) have "index_valid (handle_key_down v k)"
    by (rule handle_key_down_index_valid)
  with "4.IH" "4.prems"(1) show ?case by simp
next
  case (5 v es)
  then show ?case by simp
qed

lemma tick_index_valid:
  assumes "tick v es ks = Frame v' cmds" and "index_valid v" and "1 \<le> playback_rate v"
  shows "index_valid v' \<and> timeline v' = timeline v \<and> playback_rate v' = playback_rate v"
proof -
  from assms(1) obtain v1 where v1: "handle_events v es = Some v1"
    by (auto simp: tick_def split: option.splits)
  then have f1: "timeline v1 = timeline v" "playback_rate v1 = playback_rate v"
    by (simp_all add: handle_events_frame)
  from v1 assms(2) have i1: "index_valid v1" by (rule handle_events_index_valid)
  let ?v2 = "handle_keys_pressed v1 ks"
  from i1 f1 assms(3) have i2: "index_valid ?v2"
    by (simp add: handle_keys_pressed_index_valid)
  from assms(1) v1 have "v' = (if \<not> paused ?v2 then frames_forward ?v2 (playback_rate ?v2) else ?v2)"
    by (auto simp: tick_def Let_def split: sum.splits)
  with i2 f1 assms(3) show ?thesis
    by (simp add: frames_forward_index_valid)
qed

lemma reachable_invariant:
  assumes "reachable v0 v" and "timeline v0 \<noteq> []" and "1 \<le> playback_rate v0"
  shows "index_valid v \<and> timeline v = timeline v0 \<and> playback_rate v = playback_rate v0"
  using assms
proof (induction rule: reachable.induct)
  case start
  then show ?case by (simp add: index_valid_def)
next
  case (auto_advance v)
  then show ?case by (simp add: frames_forward_index_valid)
next
  case (step_forward v n)
  then show ?case by (simp add: frames_forward_index_valid)
next
  case (step_back v n)
  then show ?case by (simp add: frames_back_index_valid)
next
  case (pause_toggle v)
  then show ?case by (simp add: toggle_pause_index_valid)
next
  case (key_down v k)
  then show ?case by (simp add: handle_key_down_index_valid)
next
  case (keys_held v keys_pressed)
  then show ?case by (simp add: handle_keys_pressed_index_valid)
next
  case (loop_tick v events keys_pressed v' cmds)
  then show ?case using tick_index_valid [of v events keys_pressed v' cmds] by simp
qed


section \<open>Claims about the playback controller\<close>

text \<open>
  C1 (amended). For a timeline of length \<open>L \<ge> 1\<close>, an index in \<open>[0, L)\<close> and
  \<open>n \<ge> 1\<close>, \<^verbatim>\<open>_frames_forward\<close> leaves an index in \<open>[0, L)\<close>. When the step
  overshoots (\<open>index + n \<ge> L\<close>) the index is clamped to \<open>L - 1\<close> and the paused flag
  is set; when it does not (\<open>index + n < L\<close>, which includes landing exactly on
  \<open>L - 1\<close>) the index is \<open>index + n\<close> and the paused flag is unchanged.
\<close>

theorem frames_forward_clamps:
  assumes "1 \<le> length (timeline v)"
    and "0 \<le> time_idx v" and "time_idx v < int (length (timeline v))"
    and "1 \<le> n"
  shows "0 \<le> time_idx (frames_forward v n)
       \<and> time_idx (frames_forward v n) < int (length (timeline v))
       \<and> (int (length (timeline v)) \<le> time_idx v + n \<longrightarrow>
            time_idx (frames_forward v n) = int (length (timeline v)) - 1
            \<and> paused (frames_forward v n))
       \<and> (time_idx v + n < int (length (timeline v)) \<longrightarrow>
            time_idx (frames_forward v n) = time_idx v + n
            \<and> paused (frames_forward v n) = paused v)"
  using assms by (auto simp: frames_forward_def Let_def)

text \<open>The overshooting step by 5 from index 0 of the two-frame timeline.\<close>

theorem frames_forward_clamps_witness:
  "1 \<le> length (timeline example_visualizer)
   \<and> 0 \<le> time_idx example_visualizer
   \<and> time_idx example_visualizer < int (length (timeline example_visualizer))
   \<and> (1::int) \<le> 5
   \<and> time_idx (frames_forward example_visualizer 5) = 1
   \<and> paused (frames_forward example_visualizer 5)"
proof -
  have a: "1 \<le> length (timeline example_visualizer)" by (simp add: example_defs)
  have b: "0 \<le> time_idx example_visualizer" by (simp add: example_defs)
  have c: "time_idx example_visualizer < int (length (timeline example_visualizer))"
    by (simp add: example_defs)
  have d: "(1::int) \<le> 5" by simp
  have e: "int (length (timeline example_visualizer)) = 2" by (simp add: example_defs)
  have f: "time_idx example_visualizer = 0" by (simp add: example_defs)
  from frames_forward_clamps [OF a b c d] a b c d e f show ?thesis by simp
qed

text \<open>
  C1 as stated fails: from index 0 of the two-frame timeline, running, a step by 1
  reaches the last index \<open>L - 1 = 1\<close> and the paused flag is still false.
\<close>

theorem frames_forward_last_index_unpaused:
  "time_idx (frames_forward example_visualizer 1) = int (length (timeline example_visualizer)) - 1
   \<and> \<not> paused (frames_forward example_visualizer 1)"
  by (simp add: frames_forward_def Let_def example_defs)

text \<open>
  C6. In every state, the key-down handler on the restart key \<^verbatim>\<open>r\<close> sets the index
  to 0 and changes nothing else: the paused flag and every other field keep their
  values.
\<close>

theorem restart_sets_index_only: "handle_key_down v K_r = v\<lparr>time_idx := 0\<rparr>"
  by (simp add: handle_key_down_def)

text \<open>
  C7. For a timeline of length \<open>L \<ge> 1\<close>, a starting index \<open>i\<close> in \<open>[0, L)\<close> and
  \<open>n \<ge> 0\<close> with \<open>i + n < L\<close>, \<^verbatim>\<open>_frames_forward(n)\<close> followed by
  \<^verbatim>\<open>_frames_back(n)\<close> returns the index to \<open>i\<close>; the whole state is the one before.
\<close>

theorem forward_then_back:
  assumes "1 \<le> length (timeline v)"
    and "0 \<le> time_idx v" and "time_idx v < int (length (timeline v))"
    and "0 \<le> n" and "time_idx v + n < int (length (timeline v))"
  shows "time_idx (frames_back (frames_forward v n) n) = time_idx v
       \<and> frames_back (frames_forward v n) n = v"
  using assms by (auto simp: frames_forward_def frames_back_def Let_def)

text \<open>One frame forward and one back from index 0 of the two-frame timeline.\<close>

theorem forward_then_back_witness:
  "1 \<le> length (timeline example_visualizer)
   \<and> 0 \<le> time_idx example_visualizer
   \<and> time_idx example_visualizer < int (length (timeline example_visualizer))
   \<and> (0::int) \<le> 1
   \<and> time_idx example_visualizer + 1 < int (length (timeline example_visualizer))
   \<and> time_idx (frames_forward example_visualizer 1) = 1
   \<and> time_idx (frames_back (frames_forward example_visualizer 1) 1) = 0
   \<and> frames_back (frames_forward example_visualizer 1) 1 = example_visualizer"
proof -
  have a: "1 \<le> length (timeline example_visualizer)" by (simp add: example_defs)
  have b: "0 \<le> time_idx example_visualizer" by (simp add: example_defs)
  have c: "time_idx example_visualizer < int (length (timeline example_visualizer))"
    by (simp add: example_defs)
  have d: "(0::int) \<le> 1" by simp
  have e: "time_idx example_visualizer + 1 < int (length (timeline example_visualizer))"
    by (simp add: example_defs)
  have f: "time_idx (frames_forward example_visualizer 1) = 1"
    by (simp add: frames_forward_def Let_def example_defs)
  have g: "time_idx example_visualizer = 0" by (simp add: example_defs)
  from forward_then_back [OF a b c d e] a b c d e f g show ?thesis by simp
qed

text \<open>
  C10. \<^verbatim>\<open>_frames_back\<close> never changes the paused flag, for every index and every
  step size: a backward step at the end of the timeline or one clamped at index 0 does
  not resume playback.
\<close>

theorem frames_back_keeps_paused: "paused (frames_back v n) = paused v"
  by (simp add: frames_back_def)

text \<open>
  A session started by \<^verbatim>\<open>main\<close> on a non-empty list of frames keeps the index valid
  for as long as the loop runs.
\<close>

lemma fold_push_frame:
  "timeline (fold (\<lambda>line w. push_simulation_frame_data w line) frames v) = timeline v @ frames"
  "playback_rate (fold (\<lambda>line w. push_simulation_frame_data w line) frames v) = playback_rate v"
  by (induction frames arbitrary: v) (simp_all add: push_simulation_frame_data_def)

lemma run_loop_index_valid:
  "run_loop v inputs shown = Running v' shown' \<Longrightarrow> index_valid v \<Longrightarrow> 1 \<le> playback_rate v
   \<Longrightarrow> index_valid v'"
proof (induction v inputs shown rule: run_loop.induct)
  case (1 v shown)
  then show ?case by simp
next
  case (2 v events keys_pressed inputs shown)
  show ?case
  proof (cases "tick v events keys_pressed")
    case Quit
    with "2.prems"(1) show ?thesis by simp
  next
    case (Raised e)
    with "2.prems"(1) show ?thesis by simp
  next
    case (Frame w cmds)
    with "2.prems"(2,3) have w: "index_valid w" "playback_rate w = playback_rate v"
      by (simp_all add: tick_index_valid)
    from Frame "2.prems"(1) have "run_loop w inputs (shown @ [cmds]) = Running v' shown'"
      by simp
    with Frame w "2.prems"(3) show ?thesis
      by (simp add: "2.IH")
  qed
qed

lemma main_index_valid:
  assumes "frames \<noteq> []" and "main rate dark frames inputs = Running w shown"
  shows "index_valid w"
proof (cases "1 \<le> rate")
  case False
  with assms(2) show ?thesis by (simp add: main_def speed_def set_playback_rate_def)
next
  case True
  let ?v = "(Visualizer_init 800 200)\<lparr>playback_rate := rate\<rparr>"
  let ?v1 = "if dark then set_colors ?v Colors_dark else ?v"
  let ?v2 = "fold (\<lambda>line w. push_simulation_frame_data w line) frames ?v1"
  have t: "timeline ?v2 = frames"
    by (simp add: fold_push_frame Visualizer_init_def set_colors_def)
  have r: "playback_rate ?v2 = rate"
    by (simp add: fold_push_frame set_colors_def)
  from t assms(1) have i: "index_valid (?v2\<lparr>time_idx := 0\<rparr>)"
    by (simp add: index_valid_def)
  from True assms(2) have "run_loop (?v2\<lparr>time_idx := 0\<rparr>) inputs [] = Running w shown"
    by (simp add: main_def speed_def main_loop_def set_playback_rate_def Let_def)
  from this i show ?thesis
    by (rule run_loop_index_valid) (simp add: r True)
qed

lemma example_session_one_tick:
  "main 1 False [example_frame 0 10, example_frame 1 20] [([], no_keys)] =
       Running (example_visualizer\<lparr>time_idx := 1, paused := False\<rparr>)
         [[Fill (255, 255, 255),
           Blit ''DejaVu Sans'' 16 False (TimeLabel 0) (0, 0, 0) (16, 16),
           Blit ''DejaVu Sans'' 12 True (RoadName ''A'') (0, 0, 0) (16, 113),
           DrawRect (200, 200, 200) 16 90 768 20,
           DrawRect (40, 40, 40) 62 95 30 10,
           DrawRect (255, 100, 255) (- 14) 90 30 20]]"
  by (simp add: main_def speed_def main_loop_def set_playback_rate_def tick_def
      handle_keys_pressed_def list_getitem_def frames_forward_def
      draw_defs getter_defs example_defs py_int_def Let_def enumerate_eq_zip)

text \<open>
  C9. When the timeline is not empty and the playback rate is at least 1 (which
  \<^verbatim>\<open>set_playback_rate\<close> asserts and the initial value satisfies), the index is a valid
  timeline position, \<open>0 \<le> index < length\<close>, in every state reachable from the entry of
  the main loop by the controller operations. In particular it is valid in every state
  of a session that \<^verbatim>\<open>main\<close> starts on a non-empty list of frames, whatever the
  value of the speed option and the user's input.
\<close>

theorem index_always_valid:
  "(timeline v0 \<noteq> [] \<and> 1 \<le> playback_rate v0 \<and> reachable v0 v \<longrightarrow>
      0 \<le> time_idx v \<and> time_idx v < int (length (timeline v)))
   \<and> (frames \<noteq> [] \<and> main rate dark frames inputs = Running w shown \<longrightarrow>
      0 \<le> time_idx w \<and> time_idx w < int (length (timeline w)))"
proof (intro conjI impI)
  assume a: "timeline v0 \<noteq> [] \<and> 1 \<le> playback_rate v0 \<and> reachable v0 v"
  then have "index_valid v"
    using reachable_invariant [of v0 v] by blast
  then show "0 \<le> time_idx v" and "time_idx v < int (length (timeline v))"
    by (simp_all add: index_valid_def)
next
  assume "frames \<noteq> [] \<and> main rate dark frames inputs = Running w shown"
  then have "index_valid w"
    using main_index_valid [of frames rate dark inputs w shown] by blast
  then show "0 \<le> time_idx w" and "time_idx w < int (length (timeline w))"
    by (simp_all add: index_valid_def)
qed

text \<open>
  The state after a forward step by 5 from the start of the two-frame session, and the
  state after the first loop iteration of that session.
\<close>

theorem index_always_valid_witness:
  "timeline example_visualizer \<noteq> [] \<and> 1 \<le> playback_rate example_visualizer
   \<and> reachable example_visualizer (frames_forward (example_visualizer\<lparr>time_idx := 0\<rparr>) 5)
   \<and> [example_frame 0 10, example_frame 1 20] \<noteq> []
   \<and> main 1 False [example_frame 0 10, example_frame 1 20] [([], no_keys)] =
       Running (example_visualizer\<lparr>time_idx := 1, paused := False\<rparr>)
         [[Fill (255, 255, 255),
           Blit ''DejaVu Sans'' 16 False (TimeLabel 0) (0, 0, 0) (16, 16),
           Blit ''DejaVu Sans'' 12 True (RoadName ''A'') (0, 0, 0) (16, 113),
           DrawRect (200, 200, 200) 16 90 768 20,
           DrawRect (40, 40, 40) 62 95 30 10,
           DrawRect (255, 100, 255) (- 14) 90 30 20]]
   \<and> 0 \<le> time_idx (frames_forward (example_visualizer\<lparr>time_idx := 0\<rparr>) 5)
   \<and> time_idx (frames_forward (example_visualizer\<lparr>time_idx := 0\<rparr>) 5)
       < int (length (timeline (frames_forward (example_visualizer\<lparr>time_idx := 0\<rparr>) 5)))
   \<and> 0 \<le> time_idx (example_visualizer\<lparr>time_idx := 1, paused := False\<rparr>)
   \<and> time_idx (example_visualizer\<lparr>time_idx := 1, paused := False\<rparr>)
       < int (length (timeline (example_visualizer\<lparr>time_idx := 1, paused := False\<rparr>)))"
proof -
  have a: "timeline example_visualizer \<noteq> []" by (simp add: example_defs)
  have b: "1 \<le> playback_rate example_visualizer" by (simp add: example_defs)
  have c: "reachable example_visualizer (frames_forward (example_visualizer\<lparr>time_idx := 0\<rparr>) 5)"
    by (rule reachable.step_forward [OF reachable.start]) simp
  have d: "[example_frame 0 10, example_frame 1 20] \<noteq> []" by simp
  note e = example_session_one_tick
  note t = index_always_valid
      [where ?v0.0 = example_visualizer
         and v = "frames_forward (example_visualizer\<lparr>time_idx := 0\<rparr>) 5"
         and frames = "[example_frame 0 10, example_frame 1 20]" and rate = 1
         and dark = False and inputs = "[([], no_keys)]"
         and w = "example_visualizer\<lparr>time_idx := 1, paused := False\<rparr>"
         and shown = "[[Fill (255, 255, 255),
           Blit ''DejaVu Sans'' 16 False (TimeLabel 0) (0, 0, 0) (16, 16),
           Blit ''DejaVu Sans'' 12 True (RoadName ''A'') (0, 0, 0) (16, 113),
           DrawRect (200, 200, 200) 16 90 768 20,
           DrawRect (40, 40, 40) 62 95 30 10,
           DrawRect (255, 100, 255) (- 14) 90 30 20]]"]
  from t a b c d e show ?thesis by blast
qed


section \<open>Python helpers\<close>


lemma py_int_of_int [simp]: "py_int (of_int i) = i"
  by (simp add: py_int_def)






section \<open>What the drawing functions produce\<close>



lemma draw_light_red_zone:
  assumes "light_xs l = Some a" and "light_xs0 l = Some b" and "\<not> light_green l"
  shows "draw_traffic_lights_body v road_y hs l =
           draw_indicators v
             (get_canvas_origin_left v + py_int (of_int (py_int (light_x l)) * hs)) road_y
             (py_int (of_int (py_int a) * hs)) (py_int (of_int (py_int b) * hs))
           @ draw_traffic_light v
             (get_canvas_origin_left v + py_int (of_int (py_int (light_x l)) * hs)) road_y
             (max 1 (py_int (of_int (get_light_stop_line_thickness v) * hs)))
             False"
  using assms by (simp add: draw_traffic_lights_body_def Let_def)


section \<open>Claims about the coordinate mapping\<close>







text \<open>
  C8 (amended). For a red light with zone data, with \<open>X\<close> the light's pixel position and
  \<open>S\<close> the pixel width of the full-stop zone, the full-stop rectangle starts at
  \<open>X - S\<close> with width \<open>S\<close>, and the half-stop rectangle starts at \<open>X - S // 2\<close> with
  width \<open>S // 2\<close> (floor division). That is exactly half of \<open>S\<close> when \<open>S\<close> is even,
  and \<open>(S - 1) / 2\<close> when \<open>S\<close> is odd.
\<close>

theorem half_stop_zone_floor_half:
  assumes "light_xs l = Some a" and "light_xs0 l = Some b" and "\<not> light_green l"
    and "X = get_canvas_origin_left v + py_int (of_int (py_int (light_x l)) * hs)"
    and "S = py_int (of_int (py_int b) * hs)"
  shows "draw_traffic_lights_body v road_y hs l ! 1 =
           DrawRect (color_stopping_range_full (colors v))
             (X - S) (road_y - get_road_height v div 2) S (get_road_height v)
       \<and> draw_traffic_lights_body v road_y hs l ! 2 =
           DrawRect (color_stopping_range_half (colors v))
             (X - S div 2) (road_y - get_road_height v div 2) (S div 2) (get_road_height v)
       \<and> (even S \<longrightarrow> 2 * (S div 2) = S)
       \<and> (odd S \<longrightarrow> 2 * (S div 2) = S - 1)"
proof -
  from assms have "draw_traffic_lights_body v road_y hs l =
      draw_indicators v X road_y (py_int (of_int (py_int a) * hs)) S
      @ draw_traffic_light v X road_y
          (max 1 (py_int (of_int (get_light_stop_line_thickness v) * hs))) False"
    by (simp add: draw_light_red_zone)
  then have "draw_traffic_lights_body v road_y hs l ! 1 =
           DrawRect (color_stopping_range_full (colors v))
             (X - S) (road_y - get_road_height v div 2) S (get_road_height v)"
    and "draw_traffic_lights_body v road_y hs l ! 2 =
           DrawRect (color_stopping_range_half (colors v))
             (X - S div 2) (road_y - get_road_height v div 2) (S div 2) (get_road_height v)"
    by (simp_all add: draw_indicators_def Let_def)
  moreover have "even S \<longrightarrow> 2 * (S div 2) = S" by simp
  moreover have "odd S \<longrightarrow> 2 * (S div 2) = S - 1"
    by (auto elim: oddE)
  ultimately show ?thesis by simp
qed

text \<open>The red light at 50 with full-stop zone 5 and scale 8: widths 40 and 20.\<close>

theorem half_stop_zone_floor_half_witness:
  "light_xs example_light = Some 9 \<and> light_xs0 example_light = Some 5
   \<and> \<not> light_green example_light
   \<and> get_canvas_origin_left (Visualizer_init 832 200)
       + py_int (of_int (py_int (light_x example_light)) * 8) = 416
   \<and> py_int (of_int (py_int 5) * 8) = 40 \<and> even (40::int)
   \<and> draw_traffic_lights_body (Visualizer_init 832 200) 100 8 example_light ! 1 =
       DrawRect (219, 125, 125) (416 - 40) 90 40 20
   \<and> draw_traffic_lights_body (Visualizer_init 832 200) 100 8 example_light ! 2 =
       DrawRect (213, 173, 99) (416 - 20) 90 20 20"
proof -
  have a: "light_xs example_light = Some 9" and b: "light_xs0 example_light = Some 5"
    and c: "\<not> light_green example_light"
    by (simp_all add: example_light_def)
  have x: "get_canvas_origin_left (Visualizer_init 832 200)
       + py_int (of_int (py_int (light_x example_light)) * 8) = 416"
    by (simp add: getter_defs Visualizer_init_def example_light_def py_int_def)
  have s: "py_int (of_int (py_int 5) * 8) = 40" by (simp add: py_int_def)
  have d: "get_road_height (Visualizer_init 832 200) = 20"
    "color_stopping_range_full (colors (Visualizer_init 832 200)) = (219, 125, 125)"
    "color_stopping_range_half (colors (Visualizer_init 832 200)) = (213, 173, 99)"
    by (simp_all add: getter_defs Visualizer_init_def Colors_default_def)
  from half_stop_zone_floor_half
         [where road_y = 100, OF a b c x [symmetric] s [symmetric]] a b c x s d
  show ?thesis by simp
qed

text \<open>
  C8 as stated fails for an odd width: with scale 1 the full-stop zone of the red light
  is 5 pixels wide and starts 5 pixels before the light, the half-stop zone is 2 pixels
  wide and starts 2 pixels before it.
\<close>

theorem half_stop_zone_odd_width:
  "draw_traffic_lights (Visualizer_init 800 200) [example_light] 100 1 =
     [DrawRect (155, 175, 213) (66 - 9) 90 9 20,
      DrawRect (219, 125, 125) (66 - 5) 90 5 20,
      DrawRect (213, 173, 99) (66 - 2) 90 2 20,
      DrawLine (255, 0, 0) (66, 90) (66, 114) 1,
      DrawCircle (255, 0, 0) (66, 119) 5]
   \<and> 2 * (2::int) \<noteq> 5"
  by (simp add: draw_defs getter_defs example_light_def Visualizer_init_def Colors_default_def
      py_int_def Let_def)


section \<open>Claims about the render loop\<close>





text \<open>
  C2 (amended). An iteration of the render loop fetches the frame at the current index
  first and performs the automatic advance afterwards: while running, it renders the
  frame at the index held before the advance, in the state after it. For the two-frame
  timeline with playback rate 1, running from index 0: the first iteration presents the
  frame of time 0 (car at 10) and leaves index 1 with paused false; the second presents
  the frame of time 1 (car at 20, with the pause icon) and leaves index 1 with paused
  true.
\<close>

theorem tick_fetches_before_advance:
  "(handle_events v events = Some v1 \<and> handle_keys_pressed v1 keys_pressed = v2
      \<and> \<not> paused v2 \<and> list_getitem (timeline v2) (time_idx v2) = Inr s \<longrightarrow>
      tick v events keys_pressed =
        (case render_situation (frames_forward v2 (playback_rate v2)) s of
           Inl e \<Rightarrow> Raised e
         | Inr cmds \<Rightarrow> Frame (frames_forward v2 (playback_rate v2)) cmds))
   \<and> main 1 False [example_frame 0 10, example_frame 1 20] [([], no_keys)] =
       Running (example_visualizer\<lparr>time_idx := 1, paused := False\<rparr>)
         [[Fill (255, 255, 255),
           Blit ''DejaVu Sans'' 16 False (TimeLabel 0) (0, 0, 0) (16, 16),
           Blit ''DejaVu Sans'' 12 True (RoadName ''A'') (0, 0, 0) (16, 113),
           DrawRect (200, 200, 200) 16 90 768 20,
           DrawRect (40, 40, 40) 62 95 30 10,
           DrawRect (255, 100, 255) (- 14) 90 30 20]]
   \<and> main 1 False [example_frame 0 10, example_frame 1 20] [([], no_keys), ([], no_keys)] =
       Running (example_visualizer\<lparr>time_idx := 1, paused := True\<rparr>)
         [[Fill (255, 255, 255),
           Blit ''DejaVu Sans'' 16 False (TimeLabel 0) (0, 0, 0) (16, 16),
           Blit ''DejaVu Sans'' 12 True (RoadName ''A'') (0, 0, 0) (16, 113),
           DrawRect (200, 200, 200) 16 90 768 20,
           DrawRect (40, 40, 40) 62 95 30 10,
           DrawRect (255, 100, 255) (- 14) 90 30 20],
          [Fill (255, 255, 255),
           Blit ''DejaVu Sans'' 16 False (TimeLabel 1) (0, 0, 0) (16, 16),
           DrawRect (0, 0, 0) 769 16 15 20,
           DrawRect (255, 255, 255) 774 16 5 20,
           Blit ''DejaVu Sans'' 12 True (RoadName ''A'') (0, 0, 0) (16, 113),
           DrawRect (200, 200, 200) 16 90 768 20,
           DrawRect (40, 40, 40) 139 95 30 10,
           DrawRect (255, 100, 255) (- 14) 90 30 20]]"
proof (intro conjI impI)
  assume "handle_events v events = Some v1 \<and> handle_keys_pressed v1 keys_pressed = v2
      \<and> \<not> paused v2 \<and> list_getitem (timeline v2) (time_idx v2) = Inr s"
  then show "tick v events keys_pressed =
        (case render_situation (frames_forward v2 (playback_rate v2)) s of
           Inl e \<Rightarrow> Raised e
         | Inr cmds \<Rightarrow> Frame (frames_forward v2 (playback_rate v2)) cmds)"
    by (auto simp: tick_def Let_def)
next
  show "main 1 False [example_frame 0 10, example_frame 1 20] [([], no_keys)] =
       Running (example_visualizer\<lparr>time_idx := 1, paused := False\<rparr>)
         [[Fill (255, 255, 255),
           Blit ''DejaVu Sans'' 16 False (TimeLabel 0) (0, 0, 0) (16, 16),
           Blit ''DejaVu Sans'' 12 True (RoadName ''A'') (0, 0, 0) (16, 113),
           DrawRect (200, 200, 200) 16 90 768 20,
           DrawRect (40, 40, 40) 62 95 30 10,
           DrawRect (255, 100, 255) (- 14) 90 30 20]]"
    by (simp add: main_def speed_def main_loop_def set_playback_rate_def tick_def
        handle_keys_pressed_def list_getitem_def frames_forward_def
        draw_defs getter_defs example_defs py_int_def Let_def enumerate_eq_zip)
next
  show "main 1 False [example_frame 0 10, example_frame 1 20] [([], no_keys), ([], no_keys)] =
       Running (example_visualizer\<lparr>time_idx := 1, paused := True\<rparr>)
         [[Fill (255, 255, 255),
           Blit ''DejaVu Sans'' 16 False (TimeLabel 0) (0, 0, 0) (16, 16),
           Blit ''DejaVu Sans'' 12 True (RoadName ''A'') (0, 0, 0) (16, 113),
           DrawRect (200, 200, 200) 16 90 768 20,
           DrawRect (40, 40, 40) 62 95 30 10,
           DrawRect (255, 100, 255) (- 14) 90 30 20],
          [Fill (255, 255, 255),
           Blit ''DejaVu Sans'' 16 False (TimeLabel 1) (0, 0, 0) (16, 16),
           DrawRect (0, 0, 0) 769 16 15 20,
           DrawRect (255, 255, 255) 774 16 5 20,
           Blit ''DejaVu Sans'' 12 True (RoadName ''A'') (0, 0, 0) (16, 113),
           DrawRect (200, 200, 200) 16 90 768 20,
           DrawRect (40, 40, 40) 139 95 30 10,
           DrawRect (255, 100, 255) (- 14) 90 30 20]]"
    by (simp add: main_def speed_def main_loop_def set_playback_rate_def tick_def
        handle_keys_pressed_def list_getitem_def frames_forward_def
        draw_defs getter_defs example_defs py_int_def Let_def enumerate_eq_zip)
qed

text \<open>The first iteration on the two-frame session.\<close>

theorem tick_fetches_before_advance_witness:
  "handle_events example_visualizer [] = Some example_visualizer
   \<and> handle_keys_pressed example_visualizer no_keys = example_visualizer
   \<and> \<not> paused example_visualizer
   \<and> list_getitem (timeline example_visualizer) (time_idx example_visualizer)
       = Inr (example_frame 0 10)
   \<and> tick example_visualizer [] no_keys =
       (case render_situation
               (frames_forward example_visualizer (playback_rate example_visualizer))
               (example_frame 0 10) of
          Inl e \<Rightarrow> Raised e
        | Inr cmds \<Rightarrow>
            Frame (frames_forward example_visualizer (playback_rate example_visualizer)) cmds)"
proof -
  have h: "handle_events example_visualizer [] = Some example_visualizer
      \<and> handle_keys_pressed example_visualizer no_keys = example_visualizer
      \<and> \<not> paused example_visualizer
      \<and> list_getitem (timeline example_visualizer) (time_idx example_visualizer)
          = Inr (example_frame 0 10)"
    by (simp add: handle_keys_pressed_def list_getitem_def example_defs)
  from tick_fetches_before_advance
         [where v = example_visualizer and events = "[]" and keys_pressed = no_keys
            and ?v1.0 = example_visualizer and ?v2.0 = example_visualizer
            and s = "example_frame 0 10", THEN conjunct1] h
  show ?thesis by blast
qed

text \<open>
  C2 as stated fails: after one iteration on the two-frame session the index is 1 but
  paused is false, and the frame presented is the one of time 0 with the car at 10.
\<close>

theorem one_tick_shows_first_frame_unpaused:
  "tick example_visualizer [] no_keys =
     Frame (example_visualizer\<lparr>time_idx := 1, paused := False\<rparr>)
       [Fill (255, 255, 255),
        Blit ''DejaVu Sans'' 16 False (TimeLabel 0) (0, 0, 0) (16, 16),
        Blit ''DejaVu Sans'' 12 True (RoadName ''A'') (0, 0, 0) (16, 113),
        DrawRect (200, 200, 200) 16 90 768 20,
        DrawRect (40, 40, 40) 62 95 30 10,
        DrawRect (255, 100, 255) (- 14) 90 30 20]"
  by (simp add: tick_def handle_keys_pressed_def list_getitem_def frames_forward_def
      draw_defs getter_defs example_defs py_int_def Let_def enumerate_eq_zip)

end
